theory Spec2Isabelle
  imports Main "HOL-Library.Sublist"
begin

section \<open>The file matcher of the stanza file consumer\<close>

text \<open>
  A shallow embedding of \<^verbatim>\<open>pkg/stanza/fileconsumer/matcher/matcher.go\<close>: the
  configuration structs, the constructor \<^verbatim>\<open>New\<close> and the method
  \<^verbatim>\<open>MatchFiles\<close>.
\<close>

subsection \<open>Go errors\<close>

text \<open>
  A Go \<^verbatim>\<open>error\<close> value is a tree: a leaf carrying its message
  (\<^verbatim>\<open>fmt.Errorf\<close> without \<^verbatim>\<open>%w\<close>, or an error produced by another package), an
  error wrapped behind a prefix (\<^verbatim>\<open>fmt.Errorf("prefix: %w", err)\<close>), or the value
  built by \<^verbatim>\<open>errors.Join\<close>. The nil error is \<open>None\<close> of \<open>err option\<close>.
\<close>

datatype err = Msg string | Wrapped string err | Joined "err list"

text \<open>The text of a joined error: the messages of its parts, one per line.\<close>

fun joinLines :: "string list \<Rightarrow> string" where
  "joinLines [] = []"
| "joinLines [x] = x"
| "joinLines (x # y # r) = x @ [CHR 0x0A] @ joinLines (y # r)"

text \<open>The method \<^verbatim>\<open>Error()\<close>.\<close>

fun Error :: "err \<Rightarrow> string" where
  "Error (Msg s) = s"
| "Error (Wrapped p e) = p @ Error e"
| "Error (Joined es) = joinLines (map Error es)"

text \<open>
  \<^verbatim>\<open>errors.Join\<close> drops the nil arguments; it returns nil when nothing is left and a
  join of the others, in their order, otherwise (also when only one is left).
\<close>

definition errors_Join :: "err option list \<Rightarrow> err option" where
  "errors_Join errs =
     (let es = List.map_filter (\<lambda>e. e) errs
      in if es = [] then None else Some (Joined es))"

text \<open>\<^verbatim>\<open>strings.Contains\<close>, to speak about what a message reports.\<close>

fun strings_Contains :: "string \<Rightarrow> string \<Rightarrow> bool" where
  "strings_Contains [] sub = (sub = [])"
| "strings_Contains (c # cs) sub = (prefix sub (c # cs) \<or> strings_Contains cs sub)"

subsection \<open>Configuration\<close>

definition sortTypeNumeric :: string where
  "sortTypeNumeric = ''numeric''"

definition sortTypeTimestamp :: string where
  "sortTypeTimestamp = ''timestamp''"

definition sortTypeAlphabetical :: string where
  "sortTypeAlphabetical = ''alphabetical''"

definition defaultOrderingCriteriaTopN :: int where
  "defaultOrderingCriteriaTopN = 1"

record Sort =
  SortType :: string
  RegexKey :: string
  Ascending :: bool
  Layout :: string
  Location :: string

text \<open>
  \<^verbatim>\<open>TopN\<close> is a Go \<^verbatim>\<open>int\<close>. The code only compares it (with 0 and with a length) and
  slices by it, so no arithmetic can overflow and \<open>int\<close> stands for it.
\<close>

record OrderingCriteria =
  Regex :: string
  TopN :: int
  SortBy :: "Sort list"

record Criteria =
  Include :: "string list"
  Exclude :: "string list"
  OrderingCriteria :: OrderingCriteria

subsection \<open>The packages the matcher calls\<close>

text \<open>
  \<^verbatim>\<open>New\<close> and \<^verbatim>\<open>MatchFiles\<close> call the packages \<^verbatim>\<open>finder\<close>, \<^verbatim>\<open>filter\<close> and
  \<^verbatim>\<open>regexp\<close>. Their functions are parameters of the model, collected in one record;
  every theorem below holds for all of them. \<open>'rx\<close> is the compiled regular expression,
  \<open>'opt\<close> the \<^verbatim>\<open>filter.Option\<close>. A function that returns \<^verbatim>\<open>(value, error)\<close> and whose
  value is read only when the error is nil returns a sum (\<open>Inl\<close> the error);
  \<^verbatim>\<open>FindFiles\<close> and \<^verbatim>\<open>Filter\<close> return both a list and an error, and both are read.
  \<^verbatim>\<open>FindFiles\<close> stands for one scan of the file system.
\<close>

record ('rx, 'opt) env =
  finder_Validate :: "string list \<Rightarrow> err option"
  finder_FindFiles :: "string list \<Rightarrow> string list \<Rightarrow> string list \<times> err option"
  regexp_Compile :: "string \<Rightarrow> err + 'rx"
  filter_SortNumeric :: "string \<Rightarrow> bool \<Rightarrow> err + 'opt"
  filter_SortAlphabetical :: "string \<Rightarrow> bool \<Rightarrow> err + 'opt"
  filter_SortTemporal :: "string \<Rightarrow> bool \<Rightarrow> string \<Rightarrow> string \<Rightarrow> err + 'opt"
  filter_Filter :: "string list \<Rightarrow> 'rx option \<Rightarrow> 'opt list \<Rightarrow> string list \<times> err option"

subsection \<open>The matcher\<close>

text \<open>
  The fields \<^verbatim>\<open>include\<close> and \<^verbatim>\<open>exclude\<close> are \<open>include_globs\<close> and \<open>exclude_globs\<close>
  here (\<open>include\<close> is a keyword). \<^verbatim>\<open>regex\<close> is a pointer: \<open>None\<close> is nil.
\<close>

record ('rx, 'opt) Matcher =
  include_globs :: "string list"
  exclude_globs :: "string list"
  regex :: "'rx option"
  topN :: int
  filterOpts :: "'opt list"

text \<open>
  The loop of \<^verbatim>\<open>New\<close> over \<^verbatim>\<open>SortBy\<close>: the switch on the sort type appends one option
  to \<^verbatim>\<open>filterOpts\<close>, and the first error leaves the constructor.
\<close>

fun sortOptions :: "('rx, 'opt) env \<Rightarrow> Sort list \<Rightarrow> 'opt list \<Rightarrow> err + 'opt list" where
  "sortOptions E [] opts = Inr opts"
| "sortOptions E (sc # rest) opts =
     (if SortType sc = sortTypeNumeric then
        (case filter_SortNumeric E (RegexKey sc) (Ascending sc) of
           Inl e \<Rightarrow> Inl (Wrapped ''numeric sort: '' e)
         | Inr f \<Rightarrow> sortOptions E rest (opts @ [f]))
      else if SortType sc = sortTypeAlphabetical then
        (case filter_SortAlphabetical E (RegexKey sc) (Ascending sc) of
           Inl e \<Rightarrow> Inl (Wrapped ''alphabetical sort: '' e)
         | Inr f \<Rightarrow> sortOptions E rest (opts @ [f]))
      else if SortType sc = sortTypeTimestamp then
        (case filter_SortTemporal E (RegexKey sc) (Ascending sc) (Layout sc) (Location sc) of
           Inl e \<Rightarrow> Inl (Wrapped ''timestamp sort: '' e)
         | Inr f \<Rightarrow> sortOptions E rest (opts @ [f]))
      else Inl (Msg '''sort_type' must be specified''))"

text \<open>
  \<^verbatim>\<open>New\<close> returns \<^verbatim>\<open>(*Matcher, error)\<close>: a pair of two nullable values. A matcher
  built without ordering has the zero values in \<^verbatim>\<open>regex\<close>, \<^verbatim>\<open>topN\<close> and
  \<^verbatim>\<open>filterOpts\<close>.
\<close>

definition New :: "('rx, 'opt) env \<Rightarrow> Criteria \<Rightarrow> ('rx, 'opt) Matcher option \<times> err option" where
  "New E c =
     (if length (Include c) = 0 then (None, Some (Msg '''include' must be specified''))
      else
        (case finder_Validate E (Include c) of
           Some e \<Rightarrow> (None, Some (Wrapped ''include: '' e))
         | None \<Rightarrow>
             (case finder_Validate E (Exclude c) of
                Some e \<Rightarrow> (None, Some (Wrapped ''exclude: '' e))
              | None \<Rightarrow>
                  (if length (SortBy (OrderingCriteria c)) = 0 then
                     (Some \<lparr>include_globs = Include c, exclude_globs = Exclude c,
                            regex = None, topN = 0, filterOpts = []\<rparr>, None)
                   else if Regex (OrderingCriteria c) = [] then
                     (None, Some (Msg '''regex' must be specified when 'sort_by' is specified''))
                   else if TopN (OrderingCriteria c) < 0 then
                     (None, Some (Msg '''top_n' must be a positive integer''))
                   else
                     (let n = (if TopN (OrderingCriteria c) = 0 then defaultOrderingCriteriaTopN
                               else TopN (OrderingCriteria c))
                      in (case regexp_Compile E (Regex (OrderingCriteria c)) of
                            Inl e \<Rightarrow> (None, Some (Wrapped ''compile regex: '' e))
                          | Inr rx \<Rightarrow>
                              (case sortOptions E (SortBy (OrderingCriteria c)) [] of
                                 Inl e \<Rightarrow> (None, Some e)
                               | Inr opts \<Rightarrow>
                                   (Some \<lparr>include_globs = Include c, exclude_globs = Exclude c,
                                          regex = Some rx, topN = n, filterOpts = opts\<rparr>,
                                    None))))))))"

text \<open>
  \<^verbatim>\<open>MatchFiles\<close>. The slice expression \<^verbatim>\<open>result[:m.topN]\<close> panics on a negative
  bound; it is reached only with \<^verbatim>\<open>len(result) > m.topN\<close>, so the upper bound never
  fails. The panic is a value of the model.
\<close>

datatype panic = SliceBoundsOutOfRange

definition noFilesMatch :: string where
  "noFilesMatch = ''no files match the configured criteria''"

definition MatchFiles :: "('rx, 'opt) env \<Rightarrow> ('rx, 'opt) Matcher \<Rightarrow> panic + (string list \<times> err option)" where
  "MatchFiles E m =
     (let errs0 = None;
          (files, err) = finder_FindFiles E (include_globs m) (exclude_globs m);
          errs = (if err \<noteq> None then errors_Join [errs0, err] else errs0)
      in if length files = 0 then Inr (files, errors_Join [Some (Msg noFilesMatch), errs])
         else if length (filterOpts m) = 0 then Inr (files, errs)
         else
           let (result, err) = filter_Filter E files (regex m) (filterOpts m)
           in if length result = 0 then Inr (result, errors_Join [err, errs])
              else if int (length result) \<le> topN m then Inr (result, errors_Join [err, errs])
              else if topN m < 0 then Inl SliceBoundsOutOfRange
              else Inr (take (nat (topN m)) result, errors_Join [err, errs]))"

subsection \<open>Concrete collaborators for the examples\<close>

text \<open>
  The examples run the two functions with these stand-ins. The finder accepts every
  pattern; it finds the files named by the include list that are not in the exclude list,
  except those under \<^verbatim>\<open>/denied\<close>, for each of which it reports a scan error. A
  regular expression is kept as its source text, an option as the capture group and the
  direction it was built from. The ranking filter drops every candidate whose name does
  not contain the text of the expression, reports each such candidate, and keeps the
  order of the others.
\<close>

definition exFindFiles :: "string list \<Rightarrow> string list \<Rightarrow> string list \<times> err option" where
  "exFindFiles inc exc =
     (filter (\<lambda>f. f \<notin> set exc \<and> \<not> prefix ''/denied'' f) inc,
      errors_Join (map (\<lambda>f. Some (Msg (f @ '': permission denied'')))
                     (filter (prefix ''/denied'') inc)))"

definition exFilter :: "string list \<Rightarrow> string option \<Rightarrow> (string \<times> bool) list \<Rightarrow> string list \<times> err option" where
  "exFilter files rx opts =
     (let pat = (case rx of None \<Rightarrow> [] | Some p \<Rightarrow> p)
      in (filter (\<lambda>f. strings_Contains f pat) files,
          errors_Join (map (\<lambda>f. Some (Msg (f @ '' does not match regex'')))
                         (filter (\<lambda>f. \<not> strings_Contains f pat) files))))"

definition exSortOption :: "string \<Rightarrow> bool \<Rightarrow> err + string \<times> bool" where
  "exSortOption k a = (if k = [] then Inl (Msg ''regex key must be specified'') else Inr (k, a))"

definition exEnv :: "(string, string \<times> bool) env" where
  "exEnv =
     \<lparr>finder_Validate = (\<lambda>globs. None),
      finder_FindFiles = exFindFiles,
      regexp_Compile = (\<lambda>s. Inr s),
      filter_SortNumeric = exSortOption,
      filter_SortAlphabetical = exSortOption,
      filter_SortTemporal = (\<lambda>k a l z. exSortOption k a),
      filter_Filter = exFilter\<rparr>"

definition exSort :: Sort where
  "exSort =
     \<lparr>SortType = ''numeric'', RegexKey = ''n'', Ascending = True, Layout = [],
      Location = []\<rparr>"

definition exCriteria :: "string list \<Rightarrow> string list \<Rightarrow> string \<Rightarrow> int \<Rightarrow> Sort list \<Rightarrow> Criteria" where
  "exCriteria inc exc rx n sorts =
     \<lparr>Include = inc, Exclude = exc,
      OrderingCriteria = \<lparr>Regex = rx, TopN = n, SortBy = sorts\<rparr>\<rparr>"

definition exMatcher :: "string list \<Rightarrow> string list \<Rightarrow> string \<Rightarrow> int \<Rightarrow> (string, string \<times> bool) Matcher" where
  "exMatcher inc exc rx n =
     \<lparr>include_globs = inc, exclude_globs = exc, regex = Some rx, topN = n,
      filterOpts = [(''n'', True)]\<rparr>"

definition exUnranked :: "string list \<Rightarrow> string list \<Rightarrow> (string, string \<times> bool) Matcher" where
  "exUnranked inc exc =
     \<lparr>include_globs = inc, exclude_globs = exc, regex = None, topN = 0, filterOpts = []\<rparr>"

section \<open>Properties\<close>

subsection \<open>Errors\<close>

lemma errors_Join_pair:
  "errors_Join [a, b] =
     (case a of
        None \<Rightarrow> (case b of None \<Rightarrow> None | Some y \<Rightarrow> Some (Joined [y]))
      | Some x \<Rightarrow> (case b of None \<Rightarrow> Some (Joined [x]) | Some y \<Rightarrow> Some (Joined [x, y])))"
  by (simp add: errors_Join_def split: option.splits)

lemma strings_Contains_prefix: "prefix sub s \<Longrightarrow> strings_Contains s sub"
  by (cases s) simp_all

lemma strings_Contains_append: "strings_Contains (sub @ rest) sub"
  by (simp add: strings_Contains_prefix)

subsection \<open>The two functions, case by case\<close>

lemma errors_Join_nils: "errors_Join [None, None] = None"
  by (simp add: errors_Join_pair)

lemma MatchFiles_no_files:
  assumes "finder_FindFiles E (include_globs m) (exclude_globs m) = ([], ferr)"
  shows "MatchFiles E m =
           Inr ([], errors_Join [Some (Msg noFilesMatch), errors_Join [None, ferr]])"
  using assms by (simp add: MatchFiles_def errors_Join_nils)

lemma MatchFiles_unranked:
  assumes "finder_FindFiles E (include_globs m) (exclude_globs m) = (files, ferr)"
    and "files \<noteq> []" and "filterOpts m = []"
  shows "MatchFiles E m = Inr (files, errors_Join [None, ferr])"
  using assms by (simp add: MatchFiles_def errors_Join_nils)

lemma MatchFiles_ranked:
  assumes "finder_FindFiles E (include_globs m) (exclude_globs m) = (files, ferr)"
    and "files \<noteq> []" and "filterOpts m \<noteq> []"
    and "filter_Filter E files (regex m) (filterOpts m) = (ranked, rerr)"
  shows "MatchFiles E m =
           (if ranked = [] \<or> int (length ranked) \<le> topN m
              then Inr (ranked, errors_Join [rerr, errors_Join [None, ferr]])
            else if topN m < 0 then Inl SliceBoundsOutOfRange
            else Inr (take (nat (topN m)) ranked, errors_Join [rerr, errors_Join [None, ferr]]))"
  using assms by (simp add: MatchFiles_def errors_Join_nils)

lemma sortOptions_length:
  "sortOptions E scs acc = Inr opts \<Longrightarrow> length opts = length acc + length scs"
  by (induction scs arbitrary: acc) (auto split: if_splits sum.splits)

lemma sortOptions_unknown:
  assumes "sc \<in> set scs"
    and "SortType sc \<noteq> sortTypeNumeric" and "SortType sc \<noteq> sortTypeAlphabetical"
    and "SortType sc \<noteq> sortTypeTimestamp"
  shows "\<exists>e. sortOptions E scs acc = Inl e"
  using assms by (induction scs arbitrary: acc) (auto split: sum.splits)

lemma New_one_nil: "(fst (New E c) = None) = (snd (New E c) \<noteq> None)"
  by (simp add: New_def Let_def split: option.splits sum.splits)

lemma New_unranked:
  assumes "SortBy (OrderingCriteria c) = []" and "Include c \<noteq> []"
    and "finder_Validate E (Include c) = None" and "finder_Validate E (Exclude c) = None"
  shows "New E c =
           (Some \<lparr>include_globs = Include c, exclude_globs = Exclude c, regex = None,
                  topN = 0, filterOpts = []\<rparr>, None)"
  using assms by (simp add: New_def)

lemma New_ranked:
  assumes "New E c = (Some m, e)" and "SortBy (OrderingCriteria c) \<noteq> []"
  shows "e = None \<and> include_globs m = Include c \<and> exclude_globs m = Exclude c \<and>
         regex m \<noteq> None \<and> filterOpts m \<noteq> [] \<and> 0 \<le> TopN (OrderingCriteria c) \<and>
         topN m = (if TopN (OrderingCriteria c) = 0 then 1 else TopN (OrderingCriteria c))"
  using assms
  by (auto simp: New_def Let_def defaultOrderingCriteriaTopN_def
      split: option.splits sum.splits if_splits dest: sortOptions_length)

lemma New_unranked_fields:
  assumes "New E c = (Some m, e)" and "SortBy (OrderingCriteria c) = []"
  shows "e = None \<and> Include c \<noteq> [] \<and> finder_Validate E (Include c) = None \<and>
         finder_Validate E (Exclude c) = None \<and>
         m = \<lparr>include_globs = Include c, exclude_globs = Exclude c, regex = None,
               topN = 0, filterOpts = []\<rparr>"
  using assms by (auto simp: New_def split: option.splits if_splits)

lemma New_fails:
  assumes "fst (New E c) = None"
  shows "fst (New E c) = None \<and> snd (New E c) \<noteq> None"
  using assms New_one_nil [of E c] by simp

lemma New_regex_empty:
  assumes "SortBy (OrderingCriteria c) \<noteq> []" and "Regex (OrderingCriteria c) = []"
  shows "fst (New E c) = None"
  using assms by (simp add: New_def split: option.splits)

lemma New_topN_negative:
  assumes "SortBy (OrderingCriteria c) \<noteq> []" and "TopN (OrderingCriteria c) < 0"
  shows "fst (New E c) = None"
  using assms by (simp add: New_def split: option.splits)

lemma New_include_empty: "Include c = [] \<Longrightarrow> New E c = (None, Some (Msg '''include' must be specified''))"
  by (simp add: New_def)

lemma New_sort_type_unknown:
  assumes "sc \<in> set (SortBy (OrderingCriteria c))"
    and "SortType sc \<noteq> ''numeric''" and "SortType sc \<noteq> ''alphabetical''"
    and "SortType sc \<noteq> ''timestamp''"
  shows "fst (New E c) = None"
proof -
  from assms obtain e where "sortOptions E (SortBy (OrderingCriteria c)) [] = Inl e"
    using sortOptions_unknown [of sc "SortBy (OrderingCriteria c)" E "[]"]
    by (auto simp: sortTypeNumeric_def sortTypeAlphabetical_def sortTypeTimestamp_def)
  moreover from assms(1) have "SortBy (OrderingCriteria c) \<noteq> []"
    by auto
  ultimately show ?thesis
    by (simp add: New_def Let_def split: option.splits sum.splits)
qed

lemma MatchFiles_built:
  assumes "New E c = (Some m, e)" and "SortBy (OrderingCriteria c) \<noteq> []"
    and "finder_FindFiles E (include_globs m) (exclude_globs m) = (files, ferr)"
    and "files \<noteq> []"
    and "filter_Filter E files (regex m) (filterOpts m) = (ranked, rerr)"
  shows "MatchFiles E m =
           Inr (if topN m < int (length ranked) then take (nat (topN m)) ranked else ranked,
                errors_Join [rerr, errors_Join [None, ferr]])"
proof -
  from New_ranked [OF assms(1,2)] have opts: "filterOpts m \<noteq> []" and pos: "1 \<le> topN m"
    by (auto split: if_splits)
  show ?thesis
    using MatchFiles_ranked [OF assms(3,4) opts assms(5)] pos by auto
qed

lemma New_topN_zero:
  assumes "TopN (OrderingCriteria c) = 0"
  shows "New E (c\<lparr>OrderingCriteria := (OrderingCriteria c)\<lparr>TopN := defaultOrderingCriteriaTopN\<rparr>\<rparr>)
         = New E c"
  using assms
  by (simp add: New_def Let_def defaultOrderingCriteriaTopN_def split: option.splits sum.splits)

lemma MatchFiles_no_options:
  assumes "filterOpts m = []"
    and "finder_FindFiles E (include_globs m) (exclude_globs m) = (files, ferr)"
  shows "MatchFiles E m =
           Inr (files,
                if files = []
                  then errors_Join [Some (Msg ''no files match the configured criteria''),
                                    errors_Join [None, ferr]]
                else errors_Join [None, ferr])"
proof (cases "files = []")
  case True
  with assms(2) MatchFiles_no_files [of E m ferr] show ?thesis
    by (simp add: noFilesMatch_def)
next
  case False
  with assms MatchFiles_unranked [of E m files ferr] show ?thesis
    by simp
qed

lemmas ex_defs = exEnv_def exFindFiles_def exFilter_def exSortOption_def exSort_def
  exCriteria_def exMatcher_def exUnranked_def

subsection \<open>The finder returns no file\<close>

text \<open>
  Claim C2. For every matcher, whenever the finder returns zero files, \<^verbatim>\<open>MatchFiles\<close>
  returns an empty result together with an error that joins the message
  "no files match the configured criteria" with the finder's scan error, when there is
  one: the returned value is the join of that message and of the finder's errors, and
  its text is the message, followed on a line of its own by the text of the scan error.
\<close>

theorem MatchFiles_no_files_error:
  assumes "finder_FindFiles E (include_globs m) (exclude_globs m) = ([], ferr)"
  shows "MatchFiles E m =
           Inr ([], Some (Joined (Msg ''no files match the configured criteria'' #
                                  (case ferr of None \<Rightarrow> [] | Some fe \<Rightarrow> [Joined [fe]])))) \<and>
         Error (Joined (Msg ''no files match the configured criteria'' #
                        (case ferr of None \<Rightarrow> [] | Some fe \<Rightarrow> [Joined [fe]]))) =
           ''no files match the configured criteria'' @
           (case ferr of None \<Rightarrow> [] | Some fe \<Rightarrow> CHR 0x0A # Error fe) \<and>
         strings_Contains
           (Error (Joined (Msg ''no files match the configured criteria'' #
                           (case ferr of None \<Rightarrow> [] | Some fe \<Rightarrow> [Joined [fe]]))))
           ''no files match the configured criteria''"
proof -
  have msg: "Error (Joined (Msg ''no files match the configured criteria'' #
                        (case ferr of None \<Rightarrow> [] | Some fe \<Rightarrow> [Joined [fe]]))) =
           ''no files match the configured criteria'' @
           (case ferr of None \<Rightarrow> [] | Some fe \<Rightarrow> CHR 0x0A # Error fe)"
    by (simp split: option.splits)
  have "MatchFiles E m =
           Inr ([], Some (Joined (Msg ''no files match the configured criteria'' #
                                  (case ferr of None \<Rightarrow> [] | Some fe \<Rightarrow> [Joined [fe]]))))"
    using MatchFiles_no_files [OF assms]
    by (simp add: errors_Join_pair noFilesMatch_def split: option.splits)
  moreover have "strings_Contains
           (Error (Joined (Msg ''no files match the configured criteria'' #
                           (case ferr of None \<Rightarrow> [] | Some fe \<Rightarrow> [Joined [fe]]))))
           ''no files match the configured criteria''"
    unfolding msg by (rule strings_Contains_append)
  ultimately show ?thesis using msg by blast
qed

theorem MatchFiles_no_files_error_witness:
  "MatchFiles exEnv (exUnranked [''/denied/x.log''] []) =
     Inr ([], Some (Joined [Msg ''no files match the configured criteria'',
                            Joined [Joined [Msg ''/denied/x.log: permission denied'']]])) \<and>
   Error (Joined [Msg ''no files match the configured criteria'',
                  Joined [Joined [Msg ''/denied/x.log: permission denied'']]]) =
     ''no files match the configured criteria'' @ CHR 0x0A # ''/denied/x.log: permission denied''"
  using MatchFiles_no_files_error
    [of exEnv "exUnranked [''/denied/x.log''] []"
        "Some (Joined [Msg ''/denied/x.log: permission denied''])"]
  by (simp add: ex_defs errors_Join_def)

subsection \<open>Truncation to the first \<open>topN\<close> files\<close>

text \<open>
  Claim C1. For every matcher that \<^verbatim>\<open>New\<close> built with ranking configured (a non-empty
  \<^verbatim>\<open>sort_by\<close>): when the filter ran and its ranked result has more entries than
  \<open>topN\<close>, \<^verbatim>\<open>MatchFiles\<close> returns exactly the first \<open>topN\<close> entries, in ranked
  order; when it has at most \<open>topN\<close> entries, all of them are returned. The error
  returned is in both cases the join of the filter's error and of the finder's errors:
  nothing is added for the entries that were cut off.
\<close>

theorem MatchFiles_topN:
  assumes "New E c = (Some m, e)" and "SortBy (OrderingCriteria c) \<noteq> []"
    and "finder_FindFiles E (include_globs m) (exclude_globs m) = (files, ferr)"
    and "files \<noteq> []"
    and "filter_Filter E files (regex m) (filterOpts m) = (ranked, rerr)"
  shows "(topN m < int (length ranked) \<longrightarrow>
            MatchFiles E m =
              Inr (take (nat (topN m)) ranked, errors_Join [rerr, errors_Join [None, ferr]]) \<and>
            length (take (nat (topN m)) ranked) = nat (topN m)) \<and>
         (int (length ranked) \<le> topN m \<longrightarrow>
            MatchFiles E m = Inr (ranked, errors_Join [rerr, errors_Join [None, ferr]]))"
  using MatchFiles_built [OF assms] by auto

theorem MatchFiles_topN_witness:
  "MatchFiles exEnv (exMatcher [''app.1.log'', ''notes.txt'', ''app.3.log'', ''app.10.log''] [] ''.log'' 2) =
     Inr ([''app.1.log'', ''app.3.log''],
          Some (Joined [Joined [Msg ''notes.txt does not match regex'']])) \<and>
   MatchFiles exEnv (exMatcher [''app.1.log'', ''notes.txt'', ''app.3.log'', ''app.10.log''] [] ''.log'' 3) =
     Inr ([''app.1.log'', ''app.3.log'', ''app.10.log''],
          Some (Joined [Joined [Msg ''notes.txt does not match regex'']]))"
proof -
  let ?inc = "[''app.1.log'', ''notes.txt'', ''app.3.log'', ''app.10.log'']"
  let ?ranked = "[''app.1.log'', ''app.3.log'', ''app.10.log'']"
  let ?rerr = "Some (Joined [Msg ''notes.txt does not match regex''])"
  have new: "New exEnv (exCriteria ?inc [] ''.log'' n [exSort]) = (Some (exMatcher ?inc [] ''.log'' n), None)"
    if "0 < n" for n
    using that by (simp add: ex_defs New_def sortTypeNumeric_def)
  have sorts: "SortBy (OrderingCriteria (exCriteria ?inc [] ''.log'' n [exSort])) \<noteq> []" for n
    by (simp add: exCriteria_def)
  have found: "finder_FindFiles exEnv (include_globs (exMatcher ?inc [] ''.log'' n))
                 (exclude_globs (exMatcher ?inc [] ''.log'' n)) = (?inc, None)" for n
    by (simp add: ex_defs errors_Join_def)
  have ranked: "filter_Filter exEnv ?inc (regex (exMatcher ?inc [] ''.log'' n))
                  (filterOpts (exMatcher ?inc [] ''.log'' n)) = (?ranked, ?rerr)" for n
    by (simp add: ex_defs errors_Join_def Let_def)
  show ?thesis
    using MatchFiles_topN [OF new sorts found _ ranked, of 2]
      MatchFiles_topN [OF new sorts found _ ranked, of 3]
    by (simp add: exMatcher_def errors_Join_def)
qed

subsection \<open>The ranking filter retains no file\<close>

text \<open>
  Claim C3, as the specification states it: when the finder returns files and the ranking
  filter retains none of them, \<^verbatim>\<open>MatchFiles\<close> returns an empty result and an error that
  reports the "no files match" condition and names the extraction failures. The code
  returns the join of the filter's error and of the finder's errors on this path, and
  adds no message of its own to it. With two candidates that the expression does not
  match, and a filter that reports each of them, the error names the two failures and
  says nothing else.
\<close>

theorem MatchFiles_all_dropped_counterexample:
  "New exEnv (exCriteria [''a.txt'', ''b.txt''] [] ''.log'' 1 [exSort]) =
     (Some (exMatcher [''a.txt'', ''b.txt''] [] ''.log'' 1), None) \<and>
   filterOpts (exMatcher [''a.txt'', ''b.txt''] [] ''.log'' 1) \<noteq> [] \<and>
   finder_FindFiles exEnv [''a.txt'', ''b.txt''] [] = ([''a.txt'', ''b.txt''], None) \<and>
   filter_Filter exEnv [''a.txt'', ''b.txt''] (Some ''.log'') [(''n'', True)] =
     ([], Some (Joined [Msg ''a.txt does not match regex'', Msg ''b.txt does not match regex''])) \<and>
   MatchFiles exEnv (exMatcher [''a.txt'', ''b.txt''] [] ''.log'' 1) =
     Inr ([], Some (Joined [Joined [Msg ''a.txt does not match regex'',
                                    Msg ''b.txt does not match regex'']])) \<and>
   Error (Joined [Joined [Msg ''a.txt does not match regex'',
                          Msg ''b.txt does not match regex'']]) =
     ''a.txt does not match regex'' @ CHR 0x0A # ''b.txt does not match regex'' \<and>
   \<not> strings_Contains
       (Error (Joined [Joined [Msg ''a.txt does not match regex'',
                               Msg ''b.txt does not match regex'']]))
       ''no files match''"
  by (simp add: ex_defs New_def MatchFiles_def sortTypeNumeric_def errors_Join_def Let_def)


text \<open>
  Claim C3, amended: for every matcher with ranking configured, when the finder returns
  files and the ranking filter retains none of them, \<^verbatim>\<open>MatchFiles\<close> returns an empty
  result and the join of the filter's error with the finder's errors (nil when both are
  nil). When the filter reports the extraction failures, the text of the returned error
  is the text of the filter's error, followed on a line of its own by the text of the
  finder's error when there is one.
\<close>

theorem MatchFiles_all_dropped:
  assumes "filterOpts m \<noteq> []"
    and "finder_FindFiles E (include_globs m) (exclude_globs m) = (files, ferr)"
    and "files \<noteq> []"
    and "filter_Filter E files (regex m) (filterOpts m) = ([], rerr)"
  shows "MatchFiles E m =
           Inr ([], case rerr of
                      None \<Rightarrow> (case ferr of None \<Rightarrow> None | Some fe \<Rightarrow> Some (Joined [Joined [fe]]))
                    | Some re \<Rightarrow>
                        Some (Joined (re # (case ferr of None \<Rightarrow> [] | Some fe \<Rightarrow> [Joined [fe]])))) \<and>
         (case rerr of
            None \<Rightarrow> True
          | Some re \<Rightarrow>
              Error (Joined (re # (case ferr of None \<Rightarrow> [] | Some fe \<Rightarrow> [Joined [fe]]))) =
                Error re @ (case ferr of None \<Rightarrow> [] | Some fe \<Rightarrow> CHR 0x0A # Error fe))"
  using MatchFiles_ranked [OF assms(2,3,1,4)]
  by (simp add: errors_Join_pair split: option.splits)

theorem MatchFiles_all_dropped_witness:
  "MatchFiles exEnv (exMatcher [''a.txt'', ''/denied/b.txt''] [] ''.log'' 1) =
     Inr ([], Some (Joined [Joined [Msg ''a.txt does not match regex''],
                            Joined [Joined [Msg ''/denied/b.txt: permission denied'']]])) \<and>
   Error (Joined [Joined [Msg ''a.txt does not match regex''],
                  Joined [Joined [Msg ''/denied/b.txt: permission denied'']]]) =
     ''a.txt does not match regex'' @ CHR 0x0A # ''/denied/b.txt: permission denied''"
proof -
  let ?m = "exMatcher [''a.txt'', ''/denied/b.txt''] [] ''.log'' 1"
  have opts: "filterOpts ?m \<noteq> []"
    by (simp add: exMatcher_def)
  have found: "finder_FindFiles exEnv (include_globs ?m) (exclude_globs ?m) =
                 ([''a.txt''], Some (Joined [Msg ''/denied/b.txt: permission denied'']))"
    by (simp add: ex_defs errors_Join_def)
  have dropped: "filter_Filter exEnv [''a.txt''] (regex ?m) (filterOpts ?m) =
                   ([], Some (Joined [Msg ''a.txt does not match regex'']))"
    by (simp add: ex_defs errors_Join_def Let_def)
  show ?thesis
    using MatchFiles_all_dropped [OF opts found _ dropped] by simp
qed

subsection \<open>A negative \<open>top_n\<close>\<close>

text \<open>
  Claim C4, as the specification states it: \<^verbatim>\<open>New\<close> fails whenever \<^verbatim>\<open>top_n\<close> is
  negative. \<^verbatim>\<open>New\<close> returns the matcher before it looks at the ordering criteria when
  \<^verbatim>\<open>sort_by\<close> is empty, so a negative \<^verbatim>\<open>top_n\<close> is accepted there.
\<close>

theorem New_negative_topN_counterexample:
  "TopN (OrderingCriteria (exCriteria [''a.log''] [] [] (- 1) [])) < 0 \<and>
   New exEnv (exCriteria [''a.log''] [] [] (- 1) []) = (Some (exUnranked [''a.log''] []), None)"
  by (simp add: ex_defs New_def)


text \<open>
  Claim C4, amended: for every criteria with a non-empty \<^verbatim>\<open>sort_by\<close>, \<^verbatim>\<open>New\<close> fails
  with an error and returns no matcher whenever \<^verbatim>\<open>top_n\<close> is negative; when the
  include list is non-empty, both pattern lists are valid and the regex is set, the error
  is "'top_n' must be a positive integer".
\<close>

theorem New_negative_topN:
  assumes "SortBy (OrderingCriteria c) \<noteq> []" and "TopN (OrderingCriteria c) < 0"
  shows "fst (New E c) = None \<and> snd (New E c) \<noteq> None \<and>
         (Include c \<noteq> [] \<and> finder_Validate E (Include c) = None \<and>
          finder_Validate E (Exclude c) = None \<and> Regex (OrderingCriteria c) \<noteq> [] \<longrightarrow>
          New E c = (None, Some (Msg '''top_n' must be a positive integer'')))"
  using New_fails [OF New_topN_negative [OF assms], of E] assms
  by (simp add: New_def)

theorem New_negative_topN_witness:
  "New exEnv (exCriteria [''a.log''] [] ''.log'' (- 1) [exSort]) =
     (None, Some (Msg '''top_n' must be a positive integer''))"
proof -
  let ?c = "exCriteria [''a.log''] [] ''.log'' (- 1) [exSort]"
  have sorts: "SortBy (OrderingCriteria ?c) \<noteq> []" and neg: "TopN (OrderingCriteria ?c) < 0"
    by (simp_all add: exCriteria_def)
  show ?thesis
    using New_negative_topN [OF sorts neg, of exEnv] by (simp add: ex_defs)
qed

subsection \<open>The regex and \<open>sort_by\<close>\<close>

text \<open>
  Claim C5, as the specification states it: whenever the regex is set, a non-empty
  \<^verbatim>\<open>sort_by\<close> is required, and \<^verbatim>\<open>New\<close> returns an error for a set regex with an empty
  \<^verbatim>\<open>sort_by\<close>. \<^verbatim>\<open>New\<close> accepts such criteria: it returns the unranked matcher.
\<close>

theorem New_regex_without_sort_by_counterexample:
  "Regex (OrderingCriteria (exCriteria [''a.log''] [] ''[0-9]+'' 0 [])) \<noteq> [] \<and>
   SortBy (OrderingCriteria (exCriteria [''a.log''] [] ''[0-9]+'' 0 [])) = [] \<and>
   New exEnv (exCriteria [''a.log''] [] ''[0-9]+'' 0 []) = (Some (exUnranked [''a.log''] []), None)"
  by (simp add: ex_defs New_def)


text \<open>
  Claim C5, amended: the requirement goes the other way. Whenever \<^verbatim>\<open>sort_by\<close> is
  non-empty a set regex is required: \<^verbatim>\<open>New\<close> returns an error and no matcher when
  \<^verbatim>\<open>sort_by\<close> is non-empty and the regex is empty. With an empty \<^verbatim>\<open>sort_by\<close>, a
  non-empty include list and valid patterns, \<^verbatim>\<open>New\<close> succeeds whatever the regex is,
  and returns the matcher without ordering.
\<close>

theorem New_regex_required_by_sort_by:
  "(SortBy (OrderingCriteria c) \<noteq> [] \<and> Regex (OrderingCriteria c) = [] \<longrightarrow>
      fst (New E c) = None \<and> snd (New E c) \<noteq> None) \<and>
   (SortBy (OrderingCriteria c) = [] \<and> Include c \<noteq> [] \<and>
    finder_Validate E (Include c) = None \<and> finder_Validate E (Exclude c) = None \<longrightarrow>
      New E c =
        (Some \<lparr>include_globs = Include c, exclude_globs = Exclude c, regex = None,
               topN = 0, filterOpts = []\<rparr>, None))"
  using New_fails [OF New_regex_empty, of c E] New_unranked [of c E] by blast

theorem New_regex_required_by_sort_by_witness:
  "fst (New exEnv (exCriteria [''a.log''] [] [] 1 [exSort])) = None \<and>
   snd (New exEnv (exCriteria [''a.log''] [] [] 1 [exSort])) \<noteq> None \<and>
   New exEnv (exCriteria [''a.log''] [] ''[0-9]+'' 1 []) = (Some (exUnranked [''a.log''] []), None)"
  using New_regex_required_by_sort_by [of "exCriteria [''a.log''] [] [] 1 [exSort]" exEnv]
    New_regex_required_by_sort_by [of "exCriteria [''a.log''] [] ''[0-9]+'' 1 []" exEnv]
  by (simp add: ex_defs)

subsection \<open>The default \<open>top_n\<close>\<close>

text \<open>
  Claim C6. For every criteria with a non-empty \<^verbatim>\<open>sort_by\<close>, \<^verbatim>\<open>top_n = 0\<close> (which is
  also what the field holds when it is left unset, 0 being the zero value of the field)
  gives the matcher that the default value 1 gives: \<^verbatim>\<open>New\<close> returns the same result
  for both, the \<open>topN\<close> of the matcher is 1, and \<^verbatim>\<open>MatchFiles\<close> returns exactly one
  path, the first of the ranked result, whenever the ranked result is not empty.
\<close>

theorem New_topN_default:
  assumes "SortBy (OrderingCriteria c) \<noteq> []" and "TopN (OrderingCriteria c) = 0"
  shows "New E c =
           New E (c\<lparr>OrderingCriteria := (OrderingCriteria c)\<lparr>TopN := defaultOrderingCriteriaTopN\<rparr>\<rparr>) \<and>
         defaultOrderingCriteriaTopN = 1 \<and>
         (New E c = (Some m, e) \<longrightarrow>
            topN m = 1 \<and>
            (finder_FindFiles E (include_globs m) (exclude_globs m) = (files, ferr) \<and>
             files \<noteq> [] \<and>
             filter_Filter E files (regex m) (filterOpts m) = (ranked, rerr) \<and>
             ranked \<noteq> [] \<longrightarrow>
               MatchFiles E m = Inr ([hd ranked], errors_Join [rerr, errors_Join [None, ferr]])))"
proof -
  have same: "New E c =
      New E (c\<lparr>OrderingCriteria := (OrderingCriteria c)\<lparr>TopN := defaultOrderingCriteriaTopN\<rparr>\<rparr>)"
    using New_topN_zero [OF assms(2), of E] by simp
  have one: "defaultOrderingCriteriaTopN = 1"
    by (simp add: defaultOrderingCriteriaTopN_def)
  have built: "topN m = 1 \<and>
            (finder_FindFiles E (include_globs m) (exclude_globs m) = (files, ferr) \<and>
             files \<noteq> [] \<and>
             filter_Filter E files (regex m) (filterOpts m) = (ranked, rerr) \<and>
             ranked \<noteq> [] \<longrightarrow>
               MatchFiles E m = Inr ([hd ranked], errors_Join [rerr, errors_Join [None, ferr]]))"
    if new: "New E c = (Some m, e)"
  proof -
    from New_ranked [OF new assms(1)] assms(2) have n: "topN m = 1"
      by simp
    have "MatchFiles E m = Inr ([hd ranked], errors_Join [rerr, errors_Join [None, ferr]])"
      if "finder_FindFiles E (include_globs m) (exclude_globs m) = (files, ferr)"
        and "files \<noteq> []"
        and "filter_Filter E files (regex m) (filterOpts m) = (ranked, rerr)"
        and "ranked \<noteq> []"
      using MatchFiles_built [OF new assms(1) that(1,2,3)] n that(4)
      by (cases ranked) auto
    with n show ?thesis by blast
  qed
  from same one built show ?thesis by blast
qed

theorem New_topN_default_witness:
  "New exEnv (exCriteria [''app.1.log'', ''app.3.log''] [] ''.log'' 0 [exSort]) =
     New exEnv (exCriteria [''app.1.log'', ''app.3.log''] [] ''.log'' 1 [exSort]) \<and>
   New exEnv (exCriteria [''app.1.log'', ''app.3.log''] [] ''.log'' 0 [exSort]) =
     (Some (exMatcher [''app.1.log'', ''app.3.log''] [] ''.log'' 1), None) \<and>
   MatchFiles exEnv (exMatcher [''app.1.log'', ''app.3.log''] [] ''.log'' 1) =
     Inr ([''app.1.log''], None)"
proof -
  let ?inc = "[''app.1.log'', ''app.3.log'']"
  let ?c = "exCriteria ?inc [] ''.log'' 0 [exSort]"
  let ?m = "exMatcher ?inc [] ''.log'' 1"
  have sorts: "SortBy (OrderingCriteria ?c) \<noteq> []" and zero: "TopN (OrderingCriteria ?c) = 0"
    by (simp_all add: exCriteria_def)
  have new: "New exEnv ?c = (Some ?m, None)"
    by (simp add: ex_defs New_def sortTypeNumeric_def defaultOrderingCriteriaTopN_def)
  have found: "finder_FindFiles exEnv (include_globs ?m) (exclude_globs ?m) = (?inc, None)"
    by (simp add: ex_defs errors_Join_def)
  have ranked: "filter_Filter exEnv ?inc (regex ?m) (filterOpts ?m) = (?inc, None)"
    by (simp add: ex_defs errors_Join_def Let_def)
  show ?thesis
    using New_topN_default [OF sorts zero, of exEnv ?m None ?inc None ?inc None] new found ranked
    by (simp add: exCriteria_def defaultOrderingCriteriaTopN_def errors_Join_def)
qed

subsection \<open>Configuration errors\<close>

text \<open>
  Claim C7. For every criteria, \<^verbatim>\<open>New\<close> fails with an error and returns no matcher
  when the include list is empty, when \<^verbatim>\<open>sort_by\<close> is non-empty and the regex is empty,
  or when an entry of \<^verbatim>\<open>sort_by\<close> has a sort type that is none of numeric, alphabetical
  and timestamp.
\<close>

theorem New_config_errors:
  assumes "Include c = [] \<or>
           (SortBy (OrderingCriteria c) \<noteq> [] \<and> Regex (OrderingCriteria c) = []) \<or>
           (\<exists>sc \<in> set (SortBy (OrderingCriteria c)).
              SortType sc \<noteq> ''numeric'' \<and> SortType sc \<noteq> ''alphabetical'' \<and>
              SortType sc \<noteq> ''timestamp'')"
  shows "fst (New E c) = None \<and> snd (New E c) \<noteq> None"
proof -
  have "fst (New E c) = None"
    using assms New_include_empty [of c E] New_regex_empty [of c E]
      New_sort_type_unknown [of _ c E]
    by auto
  then show ?thesis by (rule New_fails)
qed

theorem New_config_errors_witness:
  "fst (New exEnv (exCriteria [] [] ''.log'' 1 [exSort])) = None \<and>
   snd (New exEnv (exCriteria [] [] ''.log'' 1 [exSort])) \<noteq> None \<and>
   fst (New exEnv (exCriteria [''a.log''] [] [] 1 [exSort])) = None \<and>
   snd (New exEnv (exCriteria [''a.log''] [] [] 1 [exSort])) \<noteq> None \<and>
   fst (New exEnv (exCriteria [''a.log''] [] ''.log'' 1 [exSort, exSort\<lparr>SortType := ''size''\<rparr>])) = None \<and>
   snd (New exEnv (exCriteria [''a.log''] [] ''.log'' 1 [exSort, exSort\<lparr>SortType := ''size''\<rparr>])) \<noteq> None"
  using New_config_errors [of "exCriteria [] [] ''.log'' 1 [exSort]" exEnv]
    New_config_errors [of "exCriteria [''a.log''] [] [] 1 [exSort]" exEnv]
    New_config_errors [of "exCriteria [''a.log''] [] ''.log'' 1 [exSort, exSort\<lparr>SortType := ''size''\<rparr>]" exEnv]
  by (simp add: exCriteria_def exSort_def)

subsection \<open>Matchers without ordering\<close>

text \<open>
  Claim C8. For every matcher that \<^verbatim>\<open>New\<close> built without ordering (an empty
  \<^verbatim>\<open>sort_by\<close>), \<^verbatim>\<open>MatchFiles\<close> returns the non-empty list of the finder as it is,
  in the finder's order and at its full length, together with the finder's errors: nil
  when the finder reported none, and the join holding the finder's error otherwise.
\<close>

theorem MatchFiles_without_ordering:
  assumes "New E c = (Some m, e)" and "SortBy (OrderingCriteria c) = []"
    and "finder_FindFiles E (include_globs m) (exclude_globs m) = (files, ferr)"
    and "files \<noteq> []"
  shows "MatchFiles E m =
           Inr (files, case ferr of None \<Rightarrow> None | Some fe \<Rightarrow> Some (Joined [fe]))"
proof -
  from New_unranked_fields [OF assms(1,2)] have "filterOpts m = []"
    by simp
  from MatchFiles_unranked [OF assms(3,4) this] show ?thesis
    by (simp add: errors_Join_pair split: option.splits)
qed

theorem MatchFiles_without_ordering_witness:
  "MatchFiles exEnv (exUnranked [''b.log'', ''/denied/c.log'', ''a.log'', ''b.log''] []) =
     Inr ([''b.log'', ''a.log'', ''b.log''],
          Some (Joined [Joined [Msg ''/denied/c.log: permission denied'']]))"
proof -
  let ?inc = "[''b.log'', ''/denied/c.log'', ''a.log'', ''b.log'']"
  let ?m = "exUnranked ?inc []"
  have new: "New exEnv (exCriteria ?inc [] [] 0 []) = (Some ?m, None)"
    by (simp add: ex_defs New_def)
  have sorts: "SortBy (OrderingCriteria (exCriteria ?inc [] [] 0 [])) = []"
    by (simp add: exCriteria_def)
  have found: "finder_FindFiles exEnv (include_globs ?m) (exclude_globs ?m) =
                 ([''b.log'', ''a.log'', ''b.log''],
                  Some (Joined [Msg ''/denied/c.log: permission denied'']))"
    by (simp add: ex_defs errors_Join_def)
  show ?thesis
    using MatchFiles_without_ordering [OF new sorts found] by simp
qed

text \<open>
  Claim C9. For every criteria whose \<^verbatim>\<open>sort_by\<close> is empty and whose include and
  exclude patterns are valid (the include list is not empty, as the configuration
  requires, and \<^verbatim>\<open>finder.Validate\<close> accepts both lists), \<^verbatim>\<open>New\<close> succeeds whatever
  the regex and \<^verbatim>\<open>top_n\<close> are: the matcher it returns holds the two pattern lists and
  nothing of the ordering criteria, and \<^verbatim>\<open>New\<close> returns it whatever
  \<^verbatim>\<open>regexp.Compile\<close> would answer. \<^verbatim>\<open>MatchFiles\<close> of that matcher returns the list of
  the finder, empty or not, and returns the same whatever the ranking filter is: it
  neither ranks nor truncates.
\<close>

theorem New_without_sort_by:
  assumes "SortBy (OrderingCriteria c) = []" and "Include c \<noteq> []"
    and "finder_Validate E (Include c) = None" and "finder_Validate E (Exclude c) = None"
    and "finder_FindFiles E (Include c) (Exclude c) = (files, ferr)"
  shows "New E c =
           (Some \<lparr>include_globs = Include c, exclude_globs = Exclude c, regex = None,
                  topN = 0, filterOpts = []\<rparr>, None) \<and>
         New (E\<lparr>regexp_Compile := compile\<rparr>) c = New E c \<and>
         MatchFiles E \<lparr>include_globs = Include c, exclude_globs = Exclude c, regex = None,
                       topN = 0, filterOpts = []\<rparr> =
           Inr (files,
                if files = []
                  then errors_Join [Some (Msg ''no files match the configured criteria''),
                                    errors_Join [None, ferr]]
                else errors_Join [None, ferr]) \<and>
         MatchFiles (E\<lparr>filter_Filter := rank\<rparr>)
             \<lparr>include_globs = Include c, exclude_globs = Exclude c, regex = None,
              topN = 0, filterOpts = []\<rparr> =
           MatchFiles E \<lparr>include_globs = Include c, exclude_globs = Exclude c, regex = None,
                         topN = 0, filterOpts = []\<rparr>"
proof -
  let ?m = "\<lparr>include_globs = Include c, exclude_globs = Exclude c, regex = None,
             topN = 0, filterOpts = []\<rparr> :: ('a, 'b) Matcher"
  have new: "New E c = (Some ?m, None)"
    using assms(1-4) by (rule New_unranked)
  have "New (E\<lparr>regexp_Compile := compile\<rparr>) c = (Some ?m, None)"
    using assms(1-4) New_unranked [of c "E\<lparr>regexp_Compile := compile\<rparr>"] by simp
  with new have same: "New (E\<lparr>regexp_Compile := compile\<rparr>) c = New E c"
    by simp
  have run: "MatchFiles E' ?m =
           Inr (files,
                if files = []
                  then errors_Join [Some (Msg ''no files match the configured criteria''),
                                    errors_Join [None, ferr]]
                else errors_Join [None, ferr])"
    if "finder_FindFiles E' = finder_FindFiles E" for E' :: "('a, 'b) env"
    using MatchFiles_no_options [of ?m E' files ferr] assms(5) that by simp
  have "MatchFiles (E\<lparr>filter_Filter := rank\<rparr>) ?m = MatchFiles E ?m"
    using run [of E] run [of "E\<lparr>filter_Filter := rank\<rparr>"] by simp
  moreover note run [of E]
  ultimately show ?thesis using new same by simp
qed

theorem New_without_sort_by_witness:
  "New (exEnv\<lparr>regexp_Compile := (\<lambda>s. Inl (Msg ''error parsing regexp''))\<rparr>)
       (exCriteria [''b.log'', ''a.log''] [] ''([0-9]+'' (- 7) []) =
     (Some (exUnranked [''b.log'', ''a.log''] []), None) \<and>
   MatchFiles (exEnv\<lparr>regexp_Compile := (\<lambda>s. Inl (Msg ''error parsing regexp''))\<rparr>)
       (exUnranked [''b.log'', ''a.log''] []) =
     Inr ([''b.log'', ''a.log''], None)"
proof -
  let ?E = "exEnv\<lparr>regexp_Compile := (\<lambda>s. Inl (Msg ''error parsing regexp''))\<rparr>"
  let ?c = "exCriteria [''b.log'', ''a.log''] [] ''([0-9]+'' (- 7) []"
  have sorts: "SortBy (OrderingCriteria ?c) = []" and inc: "Include ?c \<noteq> []"
    by (simp_all add: exCriteria_def)
  have valid: "finder_Validate ?E (Include ?c) = None" "finder_Validate ?E (Exclude ?c) = None"
    by (simp_all add: exEnv_def)
  have found: "finder_FindFiles ?E (Include ?c) (Exclude ?c) = ([''b.log'', ''a.log''], None)"
    by (simp add: ex_defs errors_Join_def)
  show ?thesis
    using New_without_sort_by [OF sorts inc valid found]
    by (simp add: exCriteria_def exUnranked_def errors_Join_def)
qed

subsection \<open>\<open>topN\<close> is positive\<close>

text \<open>
  Claim C10. For every matcher that \<^verbatim>\<open>New\<close> built with ranking configured (a non-empty
  \<^verbatim>\<open>sort_by\<close>), \<open>topN\<close> is at least 1; and whenever the ranking filter retains at
  least one file, \<^verbatim>\<open>MatchFiles\<close> returns the first \<open>topN\<close> files of the ranked
  result (all of them when there are fewer), which is at least one path.
\<close>

theorem New_topN_positive:
  assumes "New E c = (Some m, e)" and "SortBy (OrderingCriteria c) \<noteq> []"
  shows "1 \<le> topN m \<and>
         (finder_FindFiles E (include_globs m) (exclude_globs m) = (files, ferr) \<and>
          files \<noteq> [] \<and>
          filter_Filter E files (regex m) (filterOpts m) = (ranked, rerr) \<and>
          ranked \<noteq> [] \<longrightarrow>
            MatchFiles E m =
              Inr (take (nat (topN m)) ranked, errors_Join [rerr, errors_Join [None, ferr]]) \<and>
            take (nat (topN m)) ranked \<noteq> [])"
proof -
  from New_ranked [OF assms] have pos: "1 \<le> topN m"
    by (auto split: if_splits)
  have "MatchFiles E m =
              Inr (take (nat (topN m)) ranked, errors_Join [rerr, errors_Join [None, ferr]]) \<and>
            take (nat (topN m)) ranked \<noteq> []"
    if "finder_FindFiles E (include_globs m) (exclude_globs m) = (files, ferr)"
      and "files \<noteq> []"
      and "filter_Filter E files (regex m) (filterOpts m) = (ranked, rerr)"
      and "ranked \<noteq> []"
    using MatchFiles_built [OF assms that(1,2,3)] pos that(4) by auto
  with pos show ?thesis by blast
qed

theorem New_topN_positive_witness:
  "topN (exMatcher [''notes.txt'', ''app.3.log'', ''app.1.log''] [] ''.log'' 1) = 1 \<and>
   MatchFiles exEnv (exMatcher [''notes.txt'', ''app.3.log'', ''app.1.log''] [] ''.log'' 1) =
     Inr ([''app.3.log''], Some (Joined [Joined [Msg ''notes.txt does not match regex'']]))"
proof -
  let ?inc = "[''notes.txt'', ''app.3.log'', ''app.1.log'']"
  let ?m = "exMatcher ?inc [] ''.log'' 1"
  have new: "New exEnv (exCriteria ?inc [] ''.log'' 0 [exSort]) = (Some ?m, None)"
    by (simp add: ex_defs New_def sortTypeNumeric_def defaultOrderingCriteriaTopN_def)
  have sorts: "SortBy (OrderingCriteria (exCriteria ?inc [] ''.log'' 0 [exSort])) \<noteq> []"
    by (simp add: exCriteria_def)
  have found: "finder_FindFiles exEnv (include_globs ?m) (exclude_globs ?m) = (?inc, None)"
    by (simp add: ex_defs errors_Join_def)
  have ranked: "filter_Filter exEnv ?inc (regex ?m) (filterOpts ?m) =
                  ([''app.3.log'', ''app.1.log''],
                   Some (Joined [Msg ''notes.txt does not match regex'']))"
    by (simp add: ex_defs errors_Join_def Let_def)
  show ?thesis
    using New_topN_positive [OF new sorts, of ?inc None "[''app.3.log'', ''app.1.log'']"
        "Some (Joined [Msg ''notes.txt does not match regex''])"] found ranked
    by (simp add: exMatcher_def errors_Join_def)
qed

end
